theory Spec2Isabelle
  imports Complex_Main "HOL-Library.Char_ord" "HOL-Library.List_Lexorder"
begin

section \<open>Python values and primitives used by the extractors\<close>

text \<open>
  Strings are byte strings: a Python \<open>str\<close> is modelled by its UTF-8 encoding, so the
  rupee sign is three characters here.  Whitespace and digits are the ASCII ones; the
  sign of a floating-point zero is not recorded; the interpreter's optional limit on
  the length of decimal numerals is not modelled.  Byte-wise lexicographic order on
  UTF-8 strings is Python's order on \<open>str\<close>.
\<close>

datatype py_error = ValueError | TypeError | IndexError | AttributeError | OverflowError

type_synonym cell = "string option"

definition py_isspace :: "char \<Rightarrow> bool" where
  "py_isspace c = ((of_char c :: nat) \<in> {9, 10, 11, 12, 13, 28, 29, 30, 31, 32})"

definition is_digit :: "char \<Rightarrow> bool" where
  "is_digit c = (48 \<le> (of_char c :: nat) \<and> (of_char c :: nat) \<le> 57)"

definition is_upper :: "char \<Rightarrow> bool" where
  "is_upper c = (65 \<le> (of_char c :: nat) \<and> (of_char c :: nat) \<le> 90)"

definition newline :: char where
  "newline = CHR 0x0A"

definition rupee :: string where
  "rupee = [CHR 0xE2, CHR 0x82, CHR 0xB9]"

text \<open>\<open>s.strip()\<close>\<close>

definition py_strip :: "string \<Rightarrow> string" where
  "py_strip s = rev (dropWhile py_isspace (rev (dropWhile py_isspace s)))"

text \<open>\<open>s.startswith(p)\<close>\<close>

definition startswith :: "string \<Rightarrow> string \<Rightarrow> bool" where
  "startswith s p = (take (length p) s = p)"

text \<open>
  \<open>s.replace(old, new)\<close> for a non-empty \<open>old\<close>: occurrences are replaced from the left,
  without overlap.
\<close>

fun py_replace :: "string \<Rightarrow> string \<Rightarrow> string \<Rightarrow> string" where
  "py_replace old new [] = []"
| "py_replace old new (c # cs) =
     (if startswith (c # cs) old then new @ py_replace old new (drop (length old - 1) cs)
      else c # py_replace old new cs)"

text \<open>\<open>p in s\<close> on strings\<close>

fun contains :: "string \<Rightarrow> string \<Rightarrow> bool" where
  "contains [] p = (p = [])"
| "contains (c # cs) p = (startswith (c # cs) p \<or> contains cs p)"

text \<open>\<open>sep.join(xs)\<close>\<close>

fun join :: "string \<Rightarrow> string list \<Rightarrow> string" where
  "join sep [] = []"
| "join sep [x] = x"
| "join sep (x # y # ys) = x @ sep @ join sep (y # ys)"

text \<open>\<open>if cell\<close>: \<open>None\<close> and the empty string are false.\<close>

definition truthy :: "cell \<Rightarrow> bool" where
  "truthy c = (case c of None \<Rightarrow> False | Some s \<Rightarrow> s \<noteq> [])"

text \<open>\<open>str(cell)\<close>\<close>

definition py_str :: "cell \<Rightarrow> string" where
  "py_str c = (case c of None \<Rightarrow> ''None'' | Some s \<Rightarrow> s)"

text \<open>\<open>xs.index(v, start)\<close>: the first position at or after \<open>start\<close>, else ValueError.\<close>

fun index_from :: "'a list \<Rightarrow> 'a \<Rightarrow> nat \<Rightarrow> nat option" where
  "index_from [] v i = None"
| "index_from (x # xs) v i = (if x = v then Some i else index_from xs v (Suc i))"

definition py_index :: "'a list \<Rightarrow> 'a \<Rightarrow> nat \<Rightarrow> nat option" where
  "py_index xs v start = index_from (drop start xs) v start"

text \<open>\<open>xs[i]\<close> for a non-negative index: IndexError out of range.\<close>

definition nth_opt :: "'a list \<Rightarrow> nat \<Rightarrow> 'a option" where
  "nth_opt xs i = (if i < length xs then Some (xs ! i) else None)"

subsection \<open>Integers and their decimal numerals\<close>

definition digit_val :: "char \<Rightarrow> int" where
  "digit_val c = int (of_char c) - 48"

definition digits_to_int :: "string \<Rightarrow> int" where
  "digits_to_int ds = foldl (\<lambda>a c. 10 * a + digit_val c) 0 ds"

text \<open>The numeral after the sign: digits, single underscores allowed between digits.\<close>

fun valid_int_body :: "string \<Rightarrow> bool" where
  "valid_int_body [] = False"
| "valid_int_body [c] = is_digit c"
| "valid_int_body (c # d # r) =
     (is_digit c \<and> (if d = CHR ''_'' then valid_int_body r else valid_int_body (d # r)))"

definition int_body :: "string \<Rightarrow> int option" where
  "int_body b = (if valid_int_body b then Some (digits_to_int (filter is_digit b)) else None)"

text \<open>\<open>int(s)\<close> on a string: \<open>None\<close> is ValueError.\<close>

definition py_int :: "string \<Rightarrow> int option" where
  "py_int s =
     (case py_strip s of
        [] \<Rightarrow> None
      | c # r \<Rightarrow>
          if c = CHR ''-'' then map_option uminus (int_body r)
          else if c = CHR ''+'' then int_body r
          else int_body (c # r))"

definition digit_char :: "int \<Rightarrow> char" where
  "digit_char d = ''0123456789'' ! nat d"

function str_digits :: "int \<Rightarrow> string" where
  "str_digits n = (if n < 10 then [digit_char n] else str_digits (n div 10) @ [digit_char (n mod 10)])"
  by pat_completeness auto
termination
  by (relation "measure nat") auto

text \<open>\<open>str(n)\<close> for an integer\<close>

definition str_int :: "int \<Rightarrow> string" where
  "str_int n = (if n < 0 then CHR ''-'' # str_digits (- n) else str_digits n)"

subsection \<open>Floating point\<close>

text \<open>
  A finite double is \<open>Fin m e\<close>, the number \<open>m * 2 ^ e\<close>, kept in the form where \<open>m\<close> is
  odd (zero is \<open>Fin 0 0\<close>), so that equal numbers are equal terms.
\<close>

datatype pyfloat = Fin int int | PInf | NInf | NaN

datatype pyval = PyInt int | PyFloat pyfloat | PyStr string

function bit_length :: "int \<Rightarrow> int" where
  "bit_length n = (if n \<le> 0 then 0 else 1 + bit_length (n div 2))"
  by pat_completeness auto
termination
  by (relation "measure nat") auto

function norm_float :: "int \<Rightarrow> int \<Rightarrow> pyfloat" where
  "norm_float m e =
     (if m = 0 then Fin 0 0 else if even m then norm_float (m div 2) (e + 1) else Fin m e)"
  by pat_completeness auto
termination
  by (relation "measure (\<lambda>(m, e). nat \<bar>m\<bar>)") auto

text \<open>\<open>n / d\<close> rounded to the nearest integer, ties to even; \<open>d\<close> positive.\<close>

definition rhe_div :: "int \<Rightarrow> int \<Rightarrow> int" where
  "rhe_div n d =
     (let f = n div d; r = n mod d
      in if 2 * r < d then f else if d < 2 * r then f + 1 else if even f then f else f + 1)"

text \<open>
  The double nearest to \<open>p / q\<close> (\<open>q\<close> positive), ties to even, with gradual underflow
  and overflow to infinity: 53 bits of precision, least exponent \<open>-1074\<close>.
\<close>

definition float_of_ratio :: "int \<Rightarrow> int \<Rightarrow> pyfloat" where
  "float_of_ratio p q =
     (if p = 0 then Fin 0 0
      else
        let a = \<bar>p\<bar>;
            k = bit_length a - bit_length q;
            lg = (if (if 0 \<le> k then q * 2 ^ nat k \<le> a else q \<le> a * 2 ^ nat (- k)) then k else k - 1);
            e = max lg (- 1022) - 52;
            m = (if 0 \<le> e then rhe_div a (q * 2 ^ nat e) else rhe_div (a * 2 ^ nat (- e)) q)
        in if 0 \<le> e \<and> 2 ^ 1024 \<le> m * 2 ^ nat e then (if 0 < p then PInf else NInf)
           else norm_float (if 0 < p then m else - m) e)"

text \<open>\<open>a / b\<close> on integers; the caller has excluded \<open>b = 0\<close>.\<close>

definition py_truediv :: "int \<Rightarrow> int \<Rightarrow> py_error + pyfloat" where
  "py_truediv a b =
     (case (if 0 < b then float_of_ratio a b else float_of_ratio (- a) (- b)) of
        Fin m e \<Rightarrow> Inr (Fin m e)
      | _ \<Rightarrow> Inl OverflowError)"

text \<open>\<open>float(n)\<close>\<close>

definition py_float :: "int \<Rightarrow> py_error + pyfloat" where
  "py_float n = py_truediv n 1"

definition fsign :: "pyfloat \<Rightarrow> int" where
  "fsign x = (case x of Fin m e \<Rightarrow> sgn m | PInf \<Rightarrow> 1 | NInf \<Rightarrow> - 1 | NaN \<Rightarrow> 0)"

text \<open>\<open>x * y\<close> on floats\<close>

definition fmul :: "pyfloat \<Rightarrow> pyfloat \<Rightarrow> pyfloat" where
  "fmul x y =
     (case (x, y) of
        (Fin m1 e1, Fin m2 e2) \<Rightarrow>
          (let m = m1 * m2; e = e1 + e2
           in if 0 \<le> e then float_of_ratio (m * 2 ^ nat e) 1 else float_of_ratio m (2 ^ nat (- e)))
      | _ \<Rightarrow>
          if x = NaN \<or> y = NaN \<or> fsign x * fsign y = 0 then NaN
          else if 0 < fsign x * fsign y then PInf else NInf)"

text \<open>\<open>x + y\<close> on floats\<close>

definition fadd :: "pyfloat \<Rightarrow> pyfloat \<Rightarrow> pyfloat" where
  "fadd x y =
     (case (x, y) of
        (Fin m1 e1, Fin m2 e2) \<Rightarrow>
          (let e = min e1 e2; m = m1 * 2 ^ nat (e1 - e) + m2 * 2 ^ nat (e2 - e)
           in if 0 \<le> e then float_of_ratio (m * 2 ^ nat e) 1 else float_of_ratio m (2 ^ nat (- e)))
      | (NaN, _) \<Rightarrow> NaN
      | (_, NaN) \<Rightarrow> NaN
      | (PInf, NInf) \<Rightarrow> NaN
      | (NInf, PInf) \<Rightarrow> NaN
      | (PInf, _) \<Rightarrow> PInf
      | (NInf, _) \<Rightarrow> NInf
      | (_, PInf) \<Rightarrow> PInf
      | (_, NInf) \<Rightarrow> NInf)"

text \<open>
  \<open>round(x, 2)\<close>: the exact value of \<open>x\<close> is rounded to two decimals, ties to even, and
  the decimal is converted back to the nearest double; infinities and NaN round to
  themselves.
\<close>

definition py_round2 :: "pyfloat \<Rightarrow> pyfloat" where
  "py_round2 x =
     (case x of
        Fin m e \<Rightarrow>
          float_of_ratio (if 0 \<le> e then 100 * m * 2 ^ nat e else rhe_div (100 * m) (2 ^ nat (- e))) 100
      | _ \<Rightarrow> x)"

text \<open>\<open>int(x)\<close> on a float: truncation towards zero.\<close>

definition int_of_float :: "pyfloat \<Rightarrow> py_error + int" where
  "int_of_float x =
     (case x of
        Fin m e \<Rightarrow>
          Inr (if 0 \<le> e then m * 2 ^ nat e
               else if 0 \<le> m then m div 2 ^ nat (- e) else - ((- m) div 2 ^ nat (- e)))
      | NaN \<Rightarrow> Inl ValueError
      | _ \<Rightarrow> Inl OverflowError)"

text \<open>\<open>int(number)\<close> on a number\<close>

definition int_of_number :: "pyval \<Rightarrow> py_error + int" where
  "int_of_number v =
     (case v of PyInt n \<Rightarrow> Inr n | PyFloat x \<Rightarrow> int_of_float x | PyStr s \<Rightarrow> Inl ValueError)"

section \<open>Value normalisation (student\_ratio\_tab.py, expenditure\_tab.py)\<close>

text \<open>student\_ratio\_tab.py, lines 79 and 80: \<open>cell.replace(',', '').strip()\<close>\<close>

definition cell_number_str :: "string \<Rightarrow> string" where
  "cell_number_str s = py_strip (py_replace '','' [] s)"

text \<open>
  expenditure\_tab.py, lines 104 and 105:
  \<open>int(re.sub(r'[^0-9]', '', str(cell).split('(')[0].strip()))\<close>; \<open>None\<close> is ValueError.
\<close>

definition currency_value :: "string \<Rightarrow> int option" where
  "currency_value s = py_int (filter is_digit (py_strip (takeWhile (\<lambda>c. c \<noteq> CHR ''('') s)))"

section \<open>The document, as the page library presents it\<close>

text \<open>
  A table found on a page: the top of its bounding box (\<open>table_obj.bbox[1]\<close>) and its
  cells (\<open>table_obj.extract()\<close>); a cell is a string or \<open>None\<close>.  A page: its text
  (\<open>page.extract_text()\<close>, which may be \<open>None\<close>), the text of its part above a vertical
  offset (\<open>page.crop((0, 0, page.width, y)).extract_text()\<close>) and its tables
  (\<open>page.find_tables()\<close>; \<open>page.extract_tables()\<close> is their cells).  A document is the
  list of its pages.
\<close>

record table_obj =
  table_bbox_top :: rat
  table_extract :: "cell list list"

record page =
  page_extract_text :: "string option"
  page_text_above :: "rat \<Rightarrow> string option"
  page_find_tables :: "table_obj list"

definition page_extract_tables :: "page \<Rightarrow> cell list list list" where
  "page_extract_tables p = map table_extract (page_find_tables p)"


text \<open>\<open>[str(cell).replace('\n', ' ') if cell else '' for cell in row]\<close>\<close>

definition clean_header_cell :: "cell \<Rightarrow> string" where
  "clean_header_cell c = (if truthy c then py_replace [newline] '' '' (py_str c) else [])"

section \<open>Regular expressions of the extractors\<close>

text \<open>\<open>re.search\<close>: the first position, from the left, where the pattern matches.\<close>

fun re_search :: "(string \<Rightarrow> 'a option) \<Rightarrow> string \<Rightarrow> 'a option" where
  "re_search m [] = m []"
| "re_search m (c # cs) = (case m (c # cs) of Some r \<Rightarrow> Some r | None \<Rightarrow> re_search m cs)"

text \<open>
  \<open>Institute Name:\s*(.*?)\s*\[\<close>.  After the greedy whitespace the lazy group grows,
  over characters other than the line break, until whitespace and an opening bracket
  follow; the value is the group.
\<close>

definition bracket_follows :: "string \<Rightarrow> bool" where
  "bracket_follows s = (case dropWhile py_isspace s of [] \<Rightarrow> False | c # _ \<Rightarrow> c = CHR ''['')"

fun lazy_group :: "string \<Rightarrow> string \<Rightarrow> string option" where
  "lazy_group acc [] = None"
| "lazy_group acc (c # cs) =
     (if bracket_follows (c # cs) then Some (rev acc)
      else if c = newline then None
      else lazy_group (c # acc) cs)"

definition match_institute_name :: "string \<Rightarrow> string option" where
  "match_institute_name s =
     (if startswith s ''Institute Name:''
      then lazy_group [] (dropWhile py_isspace (drop 15 s))
      else None)"

text \<open>\<open>\[(IR-[A-Z]-[A-Z]-\d+)\]\<close>; the value is the group.\<close>

definition match_college_id :: "string \<Rightarrow> string option" where
  "match_college_id s =
     (case s of
        b # i # r # h1 # x # h2 # y # h3 # rest \<Rightarrow>
          if [b, i, r, h1] = ''[IR-'' \<and> is_upper x \<and> h2 = CHR ''-'' \<and> is_upper y \<and> h3 = CHR ''-''
             \<and> takeWhile is_digit rest \<noteq> [] \<and> startswith (dropWhile is_digit rest) '']''
          then Some (''IR-'' @ [x] @ ''-'' @ [y] @ ''-'' @ takeWhile is_digit rest)
          else None
      | _ \<Rightarrow> None)"

text \<open>\<open>\[(IR-[^\]]+)\]\<close>; the value is the group.\<close>

definition match_college_code :: "string \<Rightarrow> string option" where
  "match_college_code s =
     (if startswith s ''[IR-''
      then
        let g = takeWhile (\<lambda>c. c \<noteq> CHR '']'') (drop 4 s)
        in if g \<noteq> [] \<and> startswith (drop (4 + length g) s) '']'' then Some (''IR-'' @ g) else None
      else None)"

text \<open>
  \<open>(UG \[\d+ Years? Program\(s\)\]|PG \[\d+ Years? Program\(s\)\])\<close>; the value is the
  matched text.
\<close>

definition match_label :: "string \<Rightarrow> string option" where
  "match_label s =
     (if startswith s ''UG ['' \<or> startswith s ''PG [''
      then
        let ds = takeWhile is_digit (drop 4 s);
            r1 = dropWhile is_digit (drop 4 s);
            r2 = drop 5 r1;
            pl = (if startswith r2 ''s'' then ''s'' else [])
        in if ds \<noteq> [] \<and> startswith r1 '' Year'' \<and> startswith (drop (length pl) r2) '' Program(s)]''
           then Some (take 4 s @ ds @ '' Year'' @ pl @ '' Program(s)]'')
           else None
      else None)"

text \<open>\<open>re.findall\<close> of that pattern: the matches from left to right, without overlap.\<close>

fun findall_labels :: "string \<Rightarrow> string list" where
  "findall_labels [] = []"
| "findall_labels (c # cs) =
     (case match_label (c # cs) of
        Some m \<Rightarrow> m # findall_labels (drop (length m - 1) cs)
      | None \<Rightarrow> findall_labels cs)"

text \<open>\<open>(UG|PG)-(\d+)\<close>; the value is the two groups.\<close>

definition match_prog_dash :: "string \<Rightarrow> (string \<times> string) option" where
  "match_prog_dash s =
     (if (startswith s ''UG-'' \<or> startswith s ''PG-'') \<and> takeWhile is_digit (drop 3 s) \<noteq> []
      then Some (take 2 s, takeWhile is_digit (drop 3 s))
      else None)"

text \<open>\<open>(UG|PG) \[(\d+)\<close>; the value is the two groups.\<close>

definition match_prog_bracket :: "string \<Rightarrow> (string \<times> string) option" where
  "match_prog_bracket s =
     (if (startswith s ''UG ['' \<or> startswith s ''PG ['') \<and> takeWhile is_digit (drop 4 s) \<noteq> []
      then Some (take 2 s, takeWhile is_digit (drop 4 s))
      else None)"

section \<open>Student gender ratio (student\_ratio\_tab.py)\<close>

record ratio_record =
  rr_s_no :: int
  rr_college_name :: string
  rr_college_id :: string
  rr_program :: string
  rr_total_students :: int
  rr_female_students :: int
  rr_female_ratio :: pyval

text \<open>Lines 26 to 30: the institute's name and identifier, from the first page.\<close>

definition student_college_name :: "string \<Rightarrow> string" where
  "student_college_name text =
     (case re_search match_institute_name text of Some g \<Rightarrow> py_strip g | None \<Rightarrow> ''Unknown'')"

definition student_college_id :: "string \<Rightarrow> string" where
  "student_college_id text =
     (case re_search match_college_id text of Some g \<Rightarrow> py_strip g | None \<Rightarrow> ''Unknown'')"

text \<open>The float \<open>100.0\<close>, which the integer \<open>100\<close> becomes in a product with a float.\<close>

definition float_100 :: pyfloat where
  "float_100 = Fin 25 2"

text \<open>
  Line 87:
  \<open>round((female_students / total_students) * 100, 2) if total_students > 0 else 0\<close>
\<close>

definition female_ratio :: "int \<Rightarrow> int \<Rightarrow> py_error + pyval" where
  "female_ratio female_students total_students =
     (if 0 < total_students
      then (case py_truediv female_students total_students of
              Inl err \<Rightarrow> Inl err
            | Inr q \<Rightarrow> Inr (PyFloat (py_round2 (fmul q float_100))))
      else Inr (PyInt 0))"

text \<open>Line 52: the three header names that identify the table.\<close>

definition student_signature :: "string list \<Rightarrow> bool" where
  "student_signature header =
     (''No. of Male Students'' \<in> set header \<and> ''No. of Female Students'' \<in> set header
      \<and> ''Total Students'' \<in> set header)"

text \<open>
  Lines 66 to 102, one row.  \<open>Inl\<close> is an exception that leaves the row loop (the read
  of the program cell is outside the inner \<open>try\<close>; AttributeError and OverflowError are
  not among the exceptions it catches), \<open>Inr None\<close> a row that gives no record,
  \<open>Inr (Some r)\<close> the record appended.
\<close>

definition student_row ::
  "string \<Rightarrow> string \<Rightarrow> nat \<Rightarrow> nat \<Rightarrow> int \<Rightarrow> cell list \<Rightarrow> py_error + ratio_record option" where
  "student_row college_name college_id female_col_idx total_col_idx s_no row =
     (case nth_opt row 0 of
        None \<Rightarrow> Inl IndexError
      | Some program_name_raw \<Rightarrow>
          if \<not> truthy program_name_raw \<or> py_strip (py_str program_name_raw) = [] then Inr None
          else
            let program_name = py_strip (py_replace [newline] '' '' (py_str program_name_raw))
            in if startswith program_name ''UG ['' \<or> startswith program_name ''PG [''
               then
                 (case nth_opt row total_col_idx of
                    None \<Rightarrow> Inr None
                  | Some None \<Rightarrow> Inl AttributeError
                  | Some (Some total_cell) \<Rightarrow>
                      (case nth_opt row female_col_idx of
                         None \<Rightarrow> Inr None
                       | Some None \<Rightarrow> Inl AttributeError
                       | Some (Some female_cell) \<Rightarrow>
                           let total_students_str = cell_number_str total_cell;
                               female_students_str = cell_number_str female_cell
                           in if total_students_str \<noteq> [] \<and> female_students_str \<noteq> []
                              then
                                (case py_int total_students_str of
                                   None \<Rightarrow> Inr None
                                 | Some total_students \<Rightarrow>
                                     (case py_int female_students_str of
                                        None \<Rightarrow> Inr None
                                      | Some female_students \<Rightarrow>
                                          (case female_ratio female_students total_students of
                                             Inl err \<Rightarrow> Inl err
                                           | Inr ratio \<Rightarrow>
                                               Inr (Some
                                                 \<lparr>rr_s_no = s_no,
                                                  rr_college_name = college_name,
                                                  rr_college_id = college_id,
                                                  rr_program = program_name,
                                                  rr_total_students = total_students,
                                                  rr_female_students = female_students,
                                                  rr_female_ratio = ratio\<rparr>))))
                              else Inr None))
               else Inr None)"

text \<open>Line 65: the loop over the rows below the header; \<open>s_no\<close> counts the records.\<close>

fun student_rows ::
  "string \<Rightarrow> string \<Rightarrow> nat \<Rightarrow> nat \<Rightarrow> int \<Rightarrow> cell list list \<Rightarrow> py_error + ratio_record list" where
  "student_rows college_name college_id fi ti s_no [] = Inr []"
| "student_rows college_name college_id fi ti s_no (row # rows) =
     (case student_row college_name college_id fi ti s_no row of
        Inl err \<Rightarrow> Inl err
      | Inr None \<Rightarrow> student_rows college_name college_id fi ti s_no rows
      | Inr (Some r) \<Rightarrow>
          (case student_rows college_name college_id fi ti (s_no + 1) rows of
             Inl err \<Rightarrow> Inl err
           | Inr rs \<Rightarrow> Inr (r # rs)))"

text \<open>
  Lines 43 to 105, the tables of one page.  The result is the flag \<open>table_found\<close> and
  the records; the loop stops after the first table it has processed.
\<close>

fun student_tables ::
  "string \<Rightarrow> string \<Rightarrow> bool \<Rightarrow> cell list list list \<Rightarrow> py_error + bool \<times> ratio_record list" where
  "student_tables college_name college_id table_found [] = Inr (table_found, [])"
| "student_tables college_name college_id table_found (table # tables) =
     (if table = [] then student_tables college_name college_id table_found tables
      else
        let header = map clean_header_cell (hd table)
        in if student_signature header
           then
             (case (py_index header ''No. of Female Students'' 0, py_index header ''Total Students'' 0) of
                (Some female_col_idx, Some total_col_idx) \<Rightarrow>
                  (case student_rows college_name college_id female_col_idx total_col_idx 1 (tl table) of
                     Inl err \<Rightarrow> Inl err
                   | Inr data \<Rightarrow> Inr (True, data))
              | _ \<Rightarrow> student_tables college_name college_id True tables)
           else student_tables college_name college_id table_found tables)"

text \<open>Lines 37 to 42: the pages, until a table has been found.\<close>

fun student_pages :: "string \<Rightarrow> string \<Rightarrow> page list \<Rightarrow> py_error + ratio_record list" where
  "student_pages college_name college_id [] = Inr []"
| "student_pages college_name college_id (p # ps) =
     (case student_tables college_name college_id False (page_extract_tables p) of
        Inl err \<Rightarrow> Inl err
      | Inr (table_found, data) \<Rightarrow>
          if table_found then Inr data else student_pages college_name college_id ps)"

text \<open>
  The body of the outer \<open>try\<close>: \<open>Inl\<close> is the exception that the handler on line 106
  reports before it returns an empty frame.
\<close>

definition extract_student_ratio_run :: "page list \<Rightarrow> py_error + ratio_record list" where
  "extract_student_ratio_run pdf =
     (case pdf of
        [] \<Rightarrow> Inl IndexError
      | first_page # _ \<Rightarrow>
          (case page_extract_text first_page of
             None \<Rightarrow> Inl TypeError
           | Some first_page_text \<Rightarrow>
               student_pages (student_college_name first_page_text)
                 (student_college_id first_page_text) pdf))"

text \<open>The rows of the frame that \<open>extract_student_ratio_data\<close> returns.\<close>

definition extract_student_ratio_data :: "page list \<Rightarrow> ratio_record list" where
  "extract_student_ratio_data pdf =
     (case extract_student_ratio_run pdf of Inl err \<Rightarrow> [] | Inr data \<Rightarrow> data)"

text \<open>Lines 44 to 52: a table is processed when it is not empty and its header row matches.\<close>

definition student_table_matches :: "cell list list \<Rightarrow> bool" where
  "student_table_matches table = (table \<noteq> [] \<and> student_signature (map clean_header_cell (hd table)))"

section \<open>Context label of a table (median\_salary\_tab.py, university\_exam\_tab.py, placement\_data\_tab.py)\<close>

text \<open>\<open>find_program_name_for_table\<close>; the three files define the same function.\<close>

definition find_program_name_for_table :: "page \<Rightarrow> table_obj \<Rightarrow> string \<Rightarrow> string" where
  "find_program_name_for_table page table_obj previous_page_text =
     (let table_y_position = table_bbox_top table_obj;
          text_above_table = page_text_above page table_y_position;
          matches = (if truthy text_above_table then findall_labels (py_str text_above_table) else [])
      in if matches \<noteq> [] then last matches
         else if table_y_position < 150 \<and> previous_page_text \<noteq> []
                 \<and> findall_labels previous_page_text \<noteq> []
         then last (findall_labels previous_page_text)
         else ''Unknown Program'')"





section \<open>Placement and higher studies (placement\_data\_tab.py)\<close>

record placement_record =
  pr_college_name :: string
  pr_college_code :: string
  pr_program_name :: string
  pr_graduation_year :: cell
  pr_graduated :: int
  pr_placed :: int
  pr_placement_pct :: pyval
  pr_higher_studies :: int
  pr_higher_pct :: pyval

text \<open>\<open>extract_college_info\<close>\<close>

definition extract_college_info :: "string \<Rightarrow> string \<times> string" where
  "extract_college_info text =
     ((case re_search match_institute_name text of Some g \<Rightarrow> py_strip g | None \<Rightarrow> ''Not Found''),
      (case re_search match_college_code text of Some g \<Rightarrow> py_strip g | None \<Rightarrow> ''Not Found''))"

text \<open>\<open>page.extract_text() or ""\<close>\<close>

definition text_or_empty :: "page \<Rightarrow> string" where
  "text_or_empty p = (case page_extract_text p of None \<Rightarrow> [] | Some t \<Rightarrow> t)"

text \<open>
  \<open>int(row[col].replace(',', ''))\<close> inside the row's \<open>try\<close>: \<open>Inr None\<close> is an
  IndexError or ValueError, which the handler catches; the AttributeError of a \<open>None\<close>
  cell is not caught.
\<close>

definition int_cell :: "cell list \<Rightarrow> nat \<Rightarrow> py_error + int option" where
  "int_cell row col =
     (case nth_opt row col of
        None \<Rightarrow> Inr None
      | Some None \<Rightarrow> Inl AttributeError
      | Some (Some s) \<Rightarrow> Inr (py_int (py_replace '','' [] s)))"

text \<open>Lines 86 and 87: \<open>round((n / graduated) * 100, 2) if graduated > 0 else 0.0\<close>\<close>

definition percentage :: "int \<Rightarrow> int \<Rightarrow> py_error + pyval" where
  "percentage n graduated =
     (if 0 < graduated
      then (case py_truediv n graduated of
              Inl err \<Rightarrow> Inl err
            | Inr q \<Rightarrow> Inr (PyFloat (py_round2 (fmul q float_100))))
      else Inr (PyFloat (Fin 0 0)))"

text \<open>Lines 80 to 101, one row; the results are as for \<open>student_row\<close>.\<close>

definition placement_row ::
  "string \<Rightarrow> string \<Rightarrow> string \<Rightarrow> nat \<Rightarrow> nat \<Rightarrow> nat \<Rightarrow> nat \<Rightarrow> cell list
     \<Rightarrow> py_error + placement_record option" where
  "placement_row college_name college_code prog_name grad_year_col graduated_col placed_col
       higher_studies_col row =
     (case nth_opt row grad_year_col of
        None \<Rightarrow> Inr None
      | Some grad_year \<Rightarrow>
          (case int_cell row graduated_col of
             Inl err \<Rightarrow> Inl err
           | Inr None \<Rightarrow> Inr None
           | Inr (Some graduated) \<Rightarrow>
               (case int_cell row placed_col of
                  Inl err \<Rightarrow> Inl err
                | Inr None \<Rightarrow> Inr None
                | Inr (Some placed) \<Rightarrow>
                    (case int_cell row higher_studies_col of
                       Inl err \<Rightarrow> Inl err
                     | Inr None \<Rightarrow> Inr None
                     | Inr (Some higher_studies) \<Rightarrow>
                         (case percentage placed graduated of
                            Inl err \<Rightarrow> Inl err
                          | Inr placement_pct \<Rightarrow>
                              (case percentage higher_studies graduated of
                                 Inl err \<Rightarrow> Inl err
                               | Inr higher_pct \<Rightarrow>
                                   Inr (Some
                                     \<lparr>pr_college_name = college_name,
                                      pr_college_code = college_code,
                                      pr_program_name = prog_name,
                                      pr_graduation_year = grad_year,
                                      pr_graduated = graduated,
                                      pr_placed = placed,
                                      pr_placement_pct = placement_pct,
                                      pr_higher_studies = higher_studies,
                                      pr_higher_pct = higher_pct\<rparr>)))))))"

fun placement_rows ::
  "string \<Rightarrow> string \<Rightarrow> string \<Rightarrow> nat \<Rightarrow> nat \<Rightarrow> nat \<Rightarrow> nat \<Rightarrow> cell list list
     \<Rightarrow> py_error + placement_record list" where
  "placement_rows cn cc pn gy gc pc hc [] = Inr []"
| "placement_rows cn cc pn gy gc pc hc (row # rows) =
     (case placement_row cn cc pn gy gc pc hc row of
        Inl err \<Rightarrow> Inl err
      | Inr r \<Rightarrow>
          (case placement_rows cn cc pn gy gc pc hc rows of
             Inl err \<Rightarrow> Inl err
           | Inr rs \<Rightarrow> Inr ((case r of None \<Rightarrow> [] | Some x \<Rightarrow> [x]) @ rs)))"

definition placement_required_cols :: "string list" where
  "placement_required_cols =
     [''No. of students graduating in minimum stipulated time'', ''No. of students placed'',
      ''No. of students selected for Higher Studies'']"

text \<open>Lines 65 to 69: the program name of the table, \<open>None\<close> when the pattern is not found.\<close>

definition placement_prog_name :: "string \<Rightarrow> string option" where
  "placement_prog_name program_header =
     (case re_search match_prog_dash
             (py_replace ''YearsProgram(s)]'' []
               (py_replace ''['' ''-'' (py_replace '' '' [] program_header))) of
        None \<Rightarrow> None
      | Some (prog_type, prog_years) \<Rightarrow> Some (prog_type @ ''-'' @ prog_years))"

text \<open>Lines 54 to 101: the tables of one page, with the text of the page before.\<close>

fun placement_tables ::
  "string \<Rightarrow> string \<Rightarrow> page \<Rightarrow> string \<Rightarrow> table_obj list \<Rightarrow> py_error + placement_record list" where
  "placement_tables cn cc page prev [] = Inr []"
| "placement_tables cn cc page prev (table_obj # rest) =
     (let table_data = table_extract table_obj
      in if length table_data < 2 then placement_tables cn cc page prev rest
         else
           let header_row = map clean_header_cell (hd table_data)
           in if \<not> list_all (\<lambda>col. col \<in> set header_row) placement_required_cols
              then placement_tables cn cc page prev rest
              else
                (case placement_prog_name (find_program_name_for_table page table_obj prev) of
                   None \<Rightarrow> placement_tables cn cc page prev rest
                 | Some prog_name \<Rightarrow>
                     (case (py_index header_row ''Academic Year'' 1,
                            py_index header_row (placement_required_cols ! 0) 0,
                            py_index header_row (placement_required_cols ! 1) 0,
                            py_index header_row (placement_required_cols ! 2) 0) of
                        (Some gy, Some gc, Some pc, Some hc) \<Rightarrow>
                          (case placement_rows cn cc prog_name gy gc pc hc (tl table_data) of
                             Inl err \<Rightarrow> Inl err
                           | Inr rs \<Rightarrow>
                               (case placement_tables cn cc page prev rest of
                                  Inl err \<Rightarrow> Inl err
                                | Inr rs' \<Rightarrow> Inr (rs @ rs')))
                      | _ \<Rightarrow> placement_tables cn cc page prev rest)))"

text \<open>Lines 47 to 103: the pages, each with the text of the page before it.\<close>

fun placement_pages ::
  "string \<Rightarrow> string \<Rightarrow> string \<Rightarrow> page list \<Rightarrow> py_error + placement_record list" where
  "placement_pages cn cc prev [] = Inr []"
| "placement_pages cn cc prev (p # ps) =
     (if page_find_tables p = [] then placement_pages cn cc (text_or_empty p) ps
      else
        (case placement_tables cn cc p prev (page_find_tables p) of
           Inl err \<Rightarrow> Inl err
         | Inr rs \<Rightarrow>
             (case placement_pages cn cc (text_or_empty p) ps of
                Inl err \<Rightarrow> Inl err
              | Inr rs' \<Rightarrow> Inr (rs @ rs'))))"

definition extract_placement_run :: "page list \<Rightarrow> py_error + placement_record list" where
  "extract_placement_run pdf =
     (case pdf of
        [] \<Rightarrow> Inl IndexError
      | first_page # _ \<Rightarrow>
          (case extract_college_info (text_or_empty first_page) of
             (college_name, college_code) \<Rightarrow> placement_pages college_name college_code [] pdf))"

text \<open>
  The rows of the frame that \<open>extract_placement_data\<close> returns, each with its \<open>SNo\<close>; an
  exception gives the empty frame.
\<close>

definition extract_placement_data :: "page list \<Rightarrow> (int \<times> placement_record) list" where
  "extract_placement_data pdf =
     (case extract_placement_run pdf of
        Inl err \<Rightarrow> []
      | Inr data \<Rightarrow> zip (map int [1..<Suc (length data)]) data)"

section \<open>Dictionaries\<close>

text \<open>
  A Python \<open>dict\<close> is the list of its items in insertion order, with distinct keys:
  \<open>d[k] = v\<close>, \<open>d.get(k, dflt)\<close>, \<open>d.keys()\<close> and \<open>d.values()\<close>.
\<close>

fun dict_set :: "'k \<Rightarrow> 'v \<Rightarrow> ('k \<times> 'v) list \<Rightarrow> ('k \<times> 'v) list" where
  "dict_set k v [] = [(k, v)]"
| "dict_set k v ((k', v') # d) = (if k' = k then (k, v) # d else (k', v') # dict_set k v d)"

definition dict_get :: "('k \<times> 'v) list \<Rightarrow> 'k \<Rightarrow> 'v \<Rightarrow> 'v" where
  "dict_get d k dflt = (case map_of d k of Some v \<Rightarrow> v | None \<Rightarrow> dflt)"

definition dict_keys :: "('k \<times> 'v) list \<Rightarrow> 'k list" where
  "dict_keys d = map fst d"

definition dict_values :: "('k \<times> 'v) list \<Rightarrow> 'v list" where
  "dict_values d = map snd d"

text \<open>\<open>re.match(r'\d{4}-\d{2}', s)\<close>: the pattern at the start of the string.\<close>

definition year_like :: "string \<Rightarrow> bool" where
  "year_like s =
     (case s of
        a # b # c # d # h # e # f # _ \<Rightarrow>
          is_digit a \<and> is_digit b \<and> is_digit c \<and> is_digit d \<and> h = CHR ''-'' \<and> is_digit e \<and> is_digit f
      | _ \<Rightarrow> False)"

text \<open>\<open>sorted(xs, reverse=True)\<close> on strings; equal strings are the same string.\<close>

definition sorted_reverse :: "string list \<Rightarrow> string list" where
  "sorted_reverse xs = rev (sort xs)"

section \<open>Ph.D. graduates (phd\_data\_tab.py)\<close>

record phd_row =
  phd_sno :: int
  phd_college_name :: string
  phd_college_code :: string
  phd_program_name :: string
  phd_year_values :: "(string \<times> int) list"
  phd_total :: int

text \<open>
  Lines 61 and 67: \<open>int(row[i+1])\<close>, and \<open>0\<close> when that raises IndexError, TypeError (a
  \<open>None\<close> cell) or ValueError.
\<close>

definition phd_cell_int :: "cell list \<Rightarrow> nat \<Rightarrow> int" where
  "phd_cell_int row j =
     (case nth_opt row j of
        Some (Some s) \<Rightarrow> (case py_int s of Some n \<Rightarrow> n | None \<Rightarrow> 0)
      | _ \<Rightarrow> 0)"

text \<open>Lines 58 to 63: \<open>for i, year in enumerate(years)\<close>, from position \<open>i\<close> on.\<close>

fun phd_fill :: "string list \<Rightarrow> nat \<Rightarrow> cell list \<Rightarrow> (string \<times> int) list \<Rightarrow> (string \<times> int) list" where
  "phd_fill [] i row grads = grads"
| "phd_fill (year # years) i row grads =
     phd_fill years (Suc i) row (dict_set year (phd_cell_int row (Suc i)) grads)"

text \<open>Lines 55 to 69: the rows of the table; \<open>row[0]\<close> of an empty row raises.\<close>

fun phd_rows ::
  "string list \<Rightarrow> cell list list \<Rightarrow> (string \<times> int) list \<times> (string \<times> int) list
     \<Rightarrow> py_error + (string \<times> int) list \<times> (string \<times> int) list" where
  "phd_rows years [] grads = Inr grads"
| "phd_rows years (row # rows) (full_time_grads, part_time_grads) =
     (case nth_opt row 0 of
        None \<Rightarrow> Inl IndexError
      | Some c \<Rightarrow>
          let row_title = py_strip (py_str c)
          in if contains row_title ''Full Time''
             then phd_rows years rows (phd_fill years 0 row full_time_grads, part_time_grads)
             else if contains row_title ''Part Time''
             then phd_rows years rows (full_time_grads, phd_fill years 0 row part_time_grads)
             else phd_rows years rows (full_time_grads, part_time_grads))"

text \<open>Lines 46 to 50: the first row with a cell that starts like an academic year.\<close>

fun find_year_row :: "cell list list \<Rightarrow> cell list option" where
  "find_year_row [] = None"
| "find_year_row (row # rows) =
     (if list_ex (\<lambda>c. year_like (py_str c)) row then Some row else find_year_row rows)"

definition phd_table_text :: "cell list list \<Rightarrow> string" where
  "phd_table_text table = join '' '' (map (\<lambda>row. join '' '' (map py_str row)) table)"

text \<open>
  Lines 36 to 71: the tables of one page.  The state is the two dictionaries and the
  list \<open>years\<close>; the loop ends after the first table it has processed.
\<close>

fun phd_tables ::
  "cell list list list \<Rightarrow> (string \<times> int) list \<times> (string \<times> int) list \<times> string list
     \<Rightarrow> py_error + (string \<times> int) list \<times> (string \<times> int) list \<times> string list" where
  "phd_tables [] st = Inr st"
| "phd_tables (table # tables) (full_time_grads, part_time_grads, years) =
     (if length table < 2 then phd_tables tables (full_time_grads, part_time_grads, years)
      else if \<not> contains (phd_table_text table) ''No. of Ph.D students graduated''
      then phd_tables tables (full_time_grads, part_time_grads, years)
      else
        let years' =
              (case find_year_row table of
                 None \<Rightarrow> years
               | Some row \<Rightarrow> filter year_like (map (\<lambda>c. py_replace [newline] '' '' (py_str c)) row))
        in if years' = [] then phd_tables tables (full_time_grads, part_time_grads, years')
           else
             (case phd_rows years' table (full_time_grads, part_time_grads) of
                Inl err \<Rightarrow> Inl err
              | Inr (ft, pt) \<Rightarrow> Inr (ft, pt, years')))"

text \<open>Lines 32 to 34: every page is visited; the state is kept from page to page.\<close>

fun phd_pages ::
  "page list \<Rightarrow> (string \<times> int) list \<times> (string \<times> int) list \<times> string list
     \<Rightarrow> py_error + (string \<times> int) list \<times> (string \<times> int) list \<times> string list" where
  "phd_pages [] st = Inr st"
| "phd_pages (p # ps) st =
     (case phd_tables (page_extract_tables p) st of
        Inl err \<Rightarrow> Inl err
      | Inr st' \<Rightarrow> phd_pages ps st')"

text \<open>
  Lines 81 to 85 (and 88 to 92): a row of the frame before the columns of line 102 to
  104 are added.  The year labels start with a digit, so they are never the keys
  \<open>"ProgramName"\<close> and \<open>"Total"\<close>, which are kept as fields.
\<close>

definition phd_year_dict :: "(string \<Rightarrow> int) \<Rightarrow> string list \<Rightarrow> (string \<times> int) list" where
  "phd_year_dict value sorted_years = foldl (\<lambda>d year. dict_set year (value year) d) [] sorted_years"

definition phd_make_row :: "string \<Rightarrow> (string \<Rightarrow> int) \<Rightarrow> string list \<Rightarrow> phd_row" where
  "phd_make_row name value sorted_years =
     (let d = phd_year_dict value sorted_years
      in \<lparr>phd_sno = 0, phd_college_name = [], phd_college_code = [], phd_program_name = name,
          phd_year_values = d,
          phd_total = sum_list (map (\<lambda>year. dict_get d year 0) sorted_years)\<rparr>)"

text \<open>Lines 74 to 106: the frame.\<close>

definition phd_frame ::
  "string \<Rightarrow> string \<Rightarrow> (string \<times> int) list \<times> (string \<times> int) list \<times> string list \<Rightarrow> phd_row list" where
  "phd_frame college_name college_code st =
     (case st of
        (full_time_grads, part_time_grads, years) \<Rightarrow>
          if years = [] then []
          else
            let sorted_years = sorted_reverse years;
                ft_row = phd_make_row ''Ph.D. Graduated - Full Time''
                           (\<lambda>year. dict_get full_time_grads year 0) sorted_years;
                pt_row = phd_make_row ''Ph.D. Graduated - Part Time''
                           (\<lambda>year. dict_get part_time_grads year 0) sorted_years;
                total_row = phd_make_row ''Ph.D. Graduated - Total''
                           (\<lambda>year. dict_get (phd_year_values ft_row) year 0
                                    + dict_get (phd_year_values pt_row) year 0) sorted_years
            in map (\<lambda>(i, r). r\<lparr>phd_sno := i, phd_college_name := college_name,
                                 phd_college_code := college_code\<rparr>)
                 (zip [1, 2, 3] [ft_row, pt_row, total_row]))"

definition extract_phd_graduated_run :: "page list \<Rightarrow> py_error + phd_row list" where
  "extract_phd_graduated_run pdf =
     (case pdf of
        [] \<Rightarrow> Inl IndexError
      | first_page # _ \<Rightarrow>
          (case extract_college_info (text_or_empty first_page) of
             (college_name, college_code) \<Rightarrow>
               (case phd_pages pdf ([], [], []) of
                  Inl err \<Rightarrow> Inl err
                | Inr st \<Rightarrow> Inr (phd_frame college_name college_code st))))"

text \<open>The rows of the frame that \<open>extract_phd_graduated_data\<close> returns.\<close>

definition extract_phd_graduated_data :: "page list \<Rightarrow> phd_row list" where
  "extract_phd_graduated_data pdf =
     (case extract_phd_graduated_run pdf of Inl err \<Rightarrow> [] | Inr rows \<Rightarrow> rows)"

text \<open>A Ph.D. table whose header row repeats a year label.\<close>

definition phd_repeated_year_table :: "cell list list" where
  "phd_repeated_year_table =
     [[Some ''No. of Ph.D students graduated (including Integrated Ph.D)'', None, None],
      [None, Some ''2021-22'', Some ''2021-22''],
      [Some ''Full Time'', Some ''5'', Some ''7''],
      [Some ''Part Time'', Some ''1'', Some ''2'']]"

definition phd_table :: "cell list list" where
  "phd_table =
     [[Some ''No. of Ph.D students graduated (including Integrated Ph.D)'', None, None],
      [None, Some ''2021-22'', Some ''2022-23''],
      [Some ''Full Time'', Some ''5'', Some ''7''],
      [Some ''Part Time'', Some ''1'', Some ''2'']]"

section \<open>Currency display (expenditure\_tab.py)\<close>

text \<open>The loop of \<open>format_indian_currency\<close>: pairs are cut from the right of \<open>rest\<close>.\<close>

function split_pairs :: "string \<Rightarrow> string list \<Rightarrow> string \<times> string list" where
  "split_pairs rest parts =
     (if 2 < length rest
      then split_pairs (take (length rest - 2) rest) (parts @ [drop (length rest - 2) rest])
      else (rest, parts))"
  by pat_completeness auto
termination
  by (relation "measure (\<lambda>(rest, parts). length rest)") auto

definition format_indian_digits :: "string \<Rightarrow> string" where
  "format_indian_digits s =
     (if length s \<le> 3 then rupee @ '' '' @ s
      else
        let last3 = drop (length s - 3) s;
            (rest, parts) = split_pairs (take (length s - 3) s) [];
            parts' = (if rest \<noteq> [] then parts @ [rest] else parts)
        in rupee @ '' '' @ join '','' (rev parts') @ '','' @ last3)"

definition format_indian_currency :: "pyval \<Rightarrow> py_error + string" where
  "format_indian_currency number =
     (case int_of_number number of
        Inl err \<Rightarrow> Inl err
      | Inr n \<Rightarrow> Inr (format_indian_digits (str_int n)))"

section \<open>Expenditure (expenditure\_tab.py)\<close>

text \<open>
  \<open>np.mean\<close> is a function of the numerical library: it is a parameter \<open>np_mean\<close> of the
  model, from the list of values to a float.  \<open>exact_mean\<close>, the mean rounded once, is
  the instance used in the examples.
\<close>

definition exact_mean :: "int list \<Rightarrow> pyfloat" where
  "exact_mean xs = (if xs = [] then NaN else float_of_ratio (sum_list xs) (int (length xs)))"

text \<open>\<open>a + b\<close> on numbers: an integer beside a float is converted to a float.\<close>

definition py_add :: "pyval \<Rightarrow> pyval \<Rightarrow> py_error + pyval" where
  "py_add a b =
     (case (a, b) of
        (PyInt x, PyInt y) \<Rightarrow> Inr (PyInt (x + y))
      | (PyInt x, PyFloat y) \<Rightarrow>
          (case py_float x of Inl err \<Rightarrow> Inl err | Inr fx \<Rightarrow> Inr (PyFloat (fadd fx y)))
      | (PyFloat x, PyInt y) \<Rightarrow>
          (case py_float y of Inl err \<Rightarrow> Inl err | Inr fy \<Rightarrow> Inr (PyFloat (fadd x fy)))
      | (PyFloat x, PyFloat y) \<Rightarrow> Inr (PyFloat (fadd x y))
      | _ \<Rightarrow> Inl TypeError)"

text \<open>\<open>s.lower()\<close>\<close>

definition py_lower :: "string \<Rightarrow> string" where
  "py_lower s = map (\<lambda>c. if is_upper c then char_of (of_char c + (32::nat)) else c) s"

definition capital_keys :: "string list" where
  "capital_keys = [''Library'', ''New Equipment'', ''Engineering Workshops'', ''creation of Capital Assets'']"

definition operational_keys :: "string list" where
  "operational_keys = [''Salaries'', ''Maintenance of Academic Infrastructure'', ''Seminars'']"

text \<open>
  Lines 99 to 108: the cells of one row under the year columns are added to the
  dictionary; a cell that is missing, empty or without a digit is passed over.
\<close>

fun add_year_cells ::
  "string list \<Rightarrow> string list \<Rightarrow> cell list \<Rightarrow> (string \<times> int) list \<Rightarrow> (string \<times> int) list" where
  "add_year_cells header [] row target_dict = target_dict"
| "add_year_cells header (year # years) row target_dict =
     add_year_cells header years row
       (case py_index header year 0 of
          None \<Rightarrow> target_dict
        | Some year_col_idx \<Rightarrow>
            (case nth_opt row year_col_idx of
               None \<Rightarrow> target_dict
             | Some c \<Rightarrow>
                 if \<not> truthy c then target_dict
                 else
                   (case currency_value (py_str c) of
                      None \<Rightarrow> target_dict
                    | Some v \<Rightarrow> dict_set year (dict_get target_dict year 0 + v) target_dict)))"

text \<open>Lines 82 to 108: the rows of a table, for the keywords of its kind.\<close>

fun expenditure_rows ::
  "string list \<Rightarrow> string list \<Rightarrow> string list \<Rightarrow> cell list list \<Rightarrow> (string \<times> int) list
     \<Rightarrow> (string \<times> int) list" where
  "expenditure_rows keys_to_check header years [] target_dict = target_dict"
| "expenditure_rows keys_to_check header years (row # rows) target_dict =
     expenditure_rows keys_to_check header years rows
       (if row = [] \<or> \<not> truthy (hd row) then target_dict
        else
          let row_title = py_replace [newline] '' '' (py_str (hd row))
          in if list_ex (\<lambda>key. contains (py_lower row_title) (py_lower key)) keys_to_check
             then add_year_cells header years row target_dict
             else target_dict)"

text \<open>Line 59: the text of the first column.\<close>

definition first_col_text :: "cell list list \<Rightarrow> string" where
  "first_col_text table =
     join '' '' (map (\<lambda>row. py_str (hd row)) (filter (\<lambda>row. row \<noteq> [] \<and> truthy (hd row)) table))"

text \<open>Lines 54 to 108: one table; the state is the two dictionaries.\<close>

definition expenditure_table ::
  "cell list list \<Rightarrow> (string \<times> int) list \<times> (string \<times> int) list
     \<Rightarrow> (string \<times> int) list \<times> (string \<times> int) list" where
  "expenditure_table table st =
     (case st of
        (capital_exp, operational_exp) \<Rightarrow>
          if length table < 2 then st
          else
            let is_capital_table = contains (first_col_text table) ''Capital Expenditure'';
                is_operational_table = contains (first_col_text table) ''Operational Expenditure''
            in if \<not> (is_capital_table \<or> is_operational_table) then st
               else
                 (case find_year_row table of
                    None \<Rightarrow> st
                  | Some row \<Rightarrow>
                      let header = map clean_header_cell row;
                          years = filter year_like header
                      in if header = [] \<or> years = [] then st
                         else if is_capital_table
                         then (expenditure_rows capital_keys header years table capital_exp,
                               operational_exp)
                         else (capital_exp,
                               expenditure_rows operational_keys header years table operational_exp)))"

text \<open>Lines 49 to 108: all tables of all pages.\<close>

definition expenditure_scan :: "page list \<Rightarrow> (string \<times> int) list \<times> (string \<times> int) list" where
  "expenditure_scan pdf =
     foldl (\<lambda>st table. expenditure_table table st) ([], []) (concat (map page_extract_tables pdf))"

record exp_row =
  exp_sno :: pyval
  exp_college_name :: string
  exp_college_id :: string
  exp_academic_year :: string
  exp_capital :: string
  exp_operational :: string
  exp_total :: string

text \<open>Lines 117 to 128: the row of one year; the values are integers, which always format.\<close>

definition year_row ::
  "string \<Rightarrow> string \<Rightarrow> (string \<times> int) list \<Rightarrow> (string \<times> int) list \<Rightarrow> int \<Rightarrow> string \<Rightarrow> exp_row" where
  "year_row college_name college_id capital_exp operational_exp idx year =
     (let cap = dict_get capital_exp year 0;
          op = dict_get operational_exp year 0
      in \<lparr>exp_sno = PyInt idx, exp_college_name = college_name, exp_college_id = college_id,
          exp_academic_year = year,
          exp_capital = format_indian_digits (str_int cap),
          exp_operational = format_indian_digits (str_int op),
          exp_total = format_indian_digits (str_int (cap + op))\<rparr>)"

text \<open>Lines 131 to 143: the row of the averages.\<close>

definition average_row ::
  "(int list \<Rightarrow> pyfloat) \<Rightarrow> (string \<times> int) list \<Rightarrow> (string \<times> int) list \<Rightarrow> py_error + exp_row" where
  "average_row np_mean capital_exp operational_exp =
     (let avg_cap = (if capital_exp \<noteq> [] then PyFloat (np_mean (dict_values capital_exp)) else PyInt 0);
          avg_op = (if operational_exp \<noteq> [] then PyFloat (np_mean (dict_values operational_exp))
                    else PyInt 0)
      in case py_add avg_cap avg_op of
           Inl err \<Rightarrow> Inl err
         | Inr avg_total \<Rightarrow>
             (case format_indian_currency avg_cap of
                Inl err \<Rightarrow> Inl err
              | Inr c \<Rightarrow>
                  (case format_indian_currency avg_op of
                     Inl err \<Rightarrow> Inl err
                   | Inr p \<Rightarrow>
                       (case format_indian_currency avg_total of
                          Inl err \<Rightarrow> Inl err
                        | Inr t \<Rightarrow>
                            Inr \<lparr>exp_sno = PyStr [], exp_college_name = [], exp_college_id = [],
                                 exp_academic_year = ''**Average**'',
                                 exp_capital = c, exp_operational = p, exp_total = t\<rparr>))))"

text \<open>Lines 111 to 145: the combined frame.\<close>

definition combine_expenditure ::
  "(int list \<Rightarrow> pyfloat) \<Rightarrow> string \<Rightarrow> string \<Rightarrow> (string \<times> int) list \<Rightarrow> (string \<times> int) list
     \<Rightarrow> py_error + exp_row list" where
  "combine_expenditure np_mean college_name college_id capital_exp operational_exp =
     (let all_years = sorted_reverse (remdups (dict_keys capital_exp @ dict_keys operational_exp))
      in if all_years = [] then Inr []
         else
           let rows = map (\<lambda>(idx, year). year_row college_name college_id capital_exp operational_exp idx year)
                        (zip (map int [1..<Suc (length all_years)]) all_years)
           in case average_row np_mean capital_exp operational_exp of
                Inl err \<Rightarrow> Inl err
              | Inr avg \<Rightarrow> Inr (rows @ [avg]))"

definition extract_expenditure_run :: "(int list \<Rightarrow> pyfloat) \<Rightarrow> page list \<Rightarrow> py_error + exp_row list" where
  "extract_expenditure_run np_mean pdf =
     (case pdf of
        [] \<Rightarrow> Inl IndexError
      | first_page # _ \<Rightarrow>
          (case expenditure_scan pdf of
             (capital_exp, operational_exp) \<Rightarrow>
               combine_expenditure np_mean
                 (student_college_name (text_or_empty first_page))
                 (student_college_id (text_or_empty first_page))
                 capital_exp operational_exp))"

text \<open>The rows of the frame that \<open>extract_expenditure_data\<close> returns.\<close>

definition extract_expenditure_data :: "(int list \<Rightarrow> pyfloat) \<Rightarrow> page list \<Rightarrow> exp_row list" where
  "extract_expenditure_data np_mean pdf =
     (case extract_expenditure_run np_mean pdf of Inl err \<Rightarrow> [] | Inr rows \<Rightarrow> rows)"

text \<open>The first year of a period key such as \<open>"2021-22"\<close>.\<close>

definition start_year :: "string \<Rightarrow> int" where
  "start_year s = digits_to_int (take 4 s)"

text \<open>The two tables of the specification's second end-to-end scenario.\<close>

definition capital_table :: "cell list list" where
  "capital_table =
     [[Some ''Capital Expenditure'', Some ''2022-23'', Some ''2021-22''],
      [Some ''Library'', Some (rupee @ ''1,234 (approx)''), Some ''1000 (One thousand)'']]"

definition operational_table :: "cell list list" where
  "operational_table =
     [[Some ''Operational Expenditure'', Some ''2021-22'', Some ''2022-23''],
      [Some ''Salaries'', Some ''50000'', Some ''70000'']]"

section \<open>Example documents\<close>

text \<open>
  A one-page document that holds the given tables, and two tables: the table of the
  specification's first end-to-end scenario, and a student-strength table with the
  header row of the report.
\<close>

definition example_page :: "cell list list list \<Rightarrow> page" where
  "example_page tables =
     \<lparr>page_extract_text = Some ''Institute Name: Example College [IR-E-C-1234]'',
      page_text_above = (\<lambda>y. Some []),
      page_find_tables = map (\<lambda>t. \<lparr>table_bbox_top = 200, table_extract = t\<rparr>) tables\<rparr>"

definition claimed_table :: "cell list list" where
  "claimed_table =
     [[Some ''Program'', Some ''Total Students'', Some ''No. of Female Students''],
      [Some ''UG [4 Years]'', Some ''1000'', Some ''450'']]"

definition strength_table :: "cell list list \<Rightarrow> cell list list" where
  "strength_table rows =
     [Some ''Program'', Some ''No. of Male Students'', Some ''No. of Female Students'',
      Some ''Total Students''] # rows"

text \<open>
  The Indian grouping of a digit string, in the specification's words: a last group of
  three digits, groups of two before it, and a first group of one or two digits; a
  string of at most three digits is a single group.
\<close>

definition indian_pattern :: "string list \<Rightarrow> bool" where
  "indian_pattern gs =
     (case gs of
        [] \<Rightarrow> False
      | [g] \<Rightarrow> 1 \<le> length g \<and> length g \<le> 3
      | g # rest \<Rightarrow>
          (length g = 1 \<or> length g = 2)
          \<and> list_all (\<lambda>x. length x = 2) (butlast rest) \<and> length (last rest) = 3)"


declare split_pairs.simps [simp del] str_digits.simps [simp del]
declare bit_length.simps [simp del] norm_float.simps [simp del]

section \<open>Properties\<close>

subsection \<open>Numerals and cell normalisation\<close>

lemma digit_not_space: "is_digit c \<Longrightarrow> \<not> py_isspace c"
  by (auto simp: is_digit_def py_isspace_def)

lemma digit_not_special:
  "is_digit c \<Longrightarrow> c \<noteq> CHR ''_'' \<and> c \<noteq> CHR ''-'' \<and> c \<noteq> CHR ''+'' \<and> c \<noteq> CHR '',''"
  by (auto simp: is_digit_def)

lemma py_strip_id:
  "s \<noteq> [] \<Longrightarrow> \<not> py_isspace (hd s) \<Longrightarrow> \<not> py_isspace (last s) \<Longrightarrow> py_strip s = s"
proof -
  assume a: "s \<noteq> []" "\<not> py_isspace (hd s)" "\<not> py_isspace (last s)"
  have 1: "dropWhile py_isspace s = s"
    using a by (simp add: dropWhile_eq_self_iff)
  have 2: "dropWhile py_isspace (rev s) = rev s"
    using a by (simp add: dropWhile_eq_self_iff hd_rev)
  show ?thesis by (simp add: py_strip_def 1 2)
qed

lemma py_replace_remove: "py_replace [c] [] s = filter (\<lambda>x. x \<noteq> c) s"
  by (induction s) (auto simp: startswith_def)

lemma filter_dropWhile_disjoint:
  "(\<And>c. P c \<Longrightarrow> \<not> Q c) \<Longrightarrow> filter Q (dropWhile P s) = filter Q s"
  by (induction s) auto

lemma filter_digit_strip: "filter is_digit (py_strip s) = filter is_digit s"
proof -
  have sp: "\<And>c. py_isspace c \<Longrightarrow> \<not> is_digit c"
    using digit_not_space by blast
  have "filter is_digit (py_strip s) = rev (filter is_digit (dropWhile py_isspace (rev (dropWhile py_isspace s))))"
    by (simp add: py_strip_def rev_filter)
  also have "\<dots> = rev (filter is_digit (rev (dropWhile py_isspace s)))"
    using sp by (simp add: filter_dropWhile_disjoint)
  also have "\<dots> = filter is_digit (dropWhile py_isspace s)"
    by (simp add: rev_filter)
  also have "\<dots> = filter is_digit s"
    using sp by (simp add: filter_dropWhile_disjoint)
  finally show ?thesis .
qed

lemma valid_int_body_digits:
  "ds \<noteq> [] \<Longrightarrow> list_all is_digit ds \<Longrightarrow> valid_int_body ds"
  by (induction ds rule: valid_int_body.induct) (auto dest: digit_not_special)

lemma filter_all: "list_all P xs \<Longrightarrow> filter P xs = xs"
  by (induction xs) auto

lemma py_int_digits:
  assumes "list_all is_digit ds"
  shows "py_int ds = (if ds = [] then None else Some (digits_to_int ds))"
proof (cases ds)
  case Nil
  then show ?thesis by (simp add: py_int_def py_strip_def)
next
  case (Cons c r)
  have ne: "ds \<noteq> []" using Cons by simp
  have "is_digit (hd ds)" "is_digit (last ds)"
    using assms ne by (auto simp: list_all_iff)
  then have st: "py_strip ds = ds"
    using ne by (simp add: py_strip_id digit_not_space)
  have c: "is_digit c" using assms Cons by simp
  show ?thesis
    using st Cons c digit_not_special[OF c] valid_int_body_digits[OF ne assms] assms
    by (simp add: py_int_def int_body_def filter_all)
qed

lemma currency_value_eq:
  "currency_value s =
     (let d = filter is_digit (takeWhile (\<lambda>c. c \<noteq> CHR ''('') s)
      in if d = [] then None else Some (digits_to_int d))"
proof -
  have "list_all is_digit (filter is_digit (py_strip (takeWhile (\<lambda>c. c \<noteq> CHR ''('') s)))"
    by (simp add: list_all_iff)
  then show ?thesis
    by (simp add: currency_value_def py_int_digits filter_digit_strip Let_def)
qed

lemma count_cell_digits:
  assumes "list_all (\<lambda>c. is_digit c \<or> c = CHR '','') s" and "list_ex is_digit s"
  shows "py_int (cell_number_str s) = Some (digits_to_int (filter is_digit s))"
proof -
  have eq: "filter (\<lambda>x. x \<noteq> CHR '','') s = filter is_digit s"
    using assms(1) by (induction s) (auto dest: digit_not_special)
  have ne: "filter is_digit s \<noteq> []"
    using assms(2) by (simp add: list_ex_iff filter_empty_conv)
  have all: "list_all is_digit (filter is_digit s)"
    by (simp add: list_all_iff)
  have "is_digit (hd (filter is_digit s))" "is_digit (last (filter is_digit s))"
    using ne all by (auto simp: list_all_iff simp del: set_filter)
  then have "py_strip (filter is_digit s) = filter is_digit s"
    using ne by (simp add: py_strip_id digit_not_space)
  then show ?thesis
    using ne all by (simp add: cell_number_str_def py_replace_remove eq py_int_digits)
qed

text \<open>
  Claim C3.  The count cells of the student-strength table are normalised by removing
  commas, stripping and \<open>int\<close>: \<open>"1,23,456"\<close> gives \<open>123456\<close>, and so does every string
  of digits and commas with at least one digit; \<open>""\<close> normalises to the empty string,
  which the emptiness guard and \<open>int\<close> both reject, and \<open>"-"\<close> is rejected by \<open>int\<close>
  (absent).  A currency cell is cut at its first opening parenthesis and stripped of
  every non-digit: the rupee sign followed by \<open>"1,234 (approx)"\<close> gives \<open>1234\<close>, and a
  cell with no digit before the parenthesis is absent.
\<close>

theorem cell_normalisation:
  "py_int (cell_number_str ''1,23,456'') = Some 123456
   \<and> cell_number_str [] = [] \<and> py_int [] = None
   \<and> py_int (cell_number_str ''-'') = None
   \<and> currency_value [] = None \<and> currency_value ''-'' = None
   \<and> currency_value (rupee @ ''1,234 (approx)'') = Some 1234
   \<and> (list_all (\<lambda>c. is_digit c \<or> c = CHR '','') s \<and> list_ex is_digit s \<longrightarrow>
        py_int (cell_number_str s) = Some (digits_to_int (filter is_digit s)))
   \<and> currency_value t =
        (let d = filter is_digit (takeWhile (\<lambda>c. c \<noteq> CHR ''('') t)
         in if d = [] then None else Some (digits_to_int d))"
proof -
  have a: "py_int (cell_number_str ''1,23,456'') = Some 123456" by code_simp
  have b: "cell_number_str [] = [] \<and> py_int [] = None" by code_simp
  have c: "py_int (cell_number_str ''-'') = None" by code_simp
  have d: "currency_value [] = None \<and> currency_value ''-'' = None" by code_simp
  have e: "currency_value (rupee @ ''1,234 (approx)'') = Some 1234" by code_simp
  show ?thesis
    using a b c d e count_cell_digits[of s] currency_value_eq[of t] by blast
qed



lemma digit_char_cases:
  "0 \<le> d \<Longrightarrow> d < 10 \<Longrightarrow> is_digit (digit_char d) \<and> digit_val (digit_char d) = d"
proof -
  assume "0 \<le> d" "d < 10"
  then have "d = 0 \<or> d = 1 \<or> d = 2 \<or> d = 3 \<or> d = 4 \<or> d = 5 \<or> d = 6 \<or> d = 7 \<or> d = 8 \<or> d = 9"
    by arith
  then show ?thesis
    by (elim disjE) (simp_all add: digit_char_def is_digit_def digit_val_def)
qed

lemma digits_to_int_snoc: "digits_to_int (ds @ [c]) = 10 * digits_to_int ds + digit_val c"
  by (simp add: digits_to_int_def)

lemma str_digits_ok:
  "0 \<le> n \<Longrightarrow> list_all is_digit (str_digits n) \<and> digits_to_int (str_digits n) = n \<and> str_digits n \<noteq> []"
proof (induction n rule: str_digits.induct)
  case (1 n)
  show ?case
  proof (cases "n < 10")
    case True
    then show ?thesis
      using "1.prems" digit_char_cases[of n]
      by (subst (1 2 3) str_digits.simps) (simp add: digits_to_int_def)
  next
    case False
    have m: "0 \<le> n mod 10" "n mod 10 < 10" by simp_all
    have ih: "list_all is_digit (str_digits (n div 10)) \<and> digits_to_int (str_digits (n div 10)) = n div 10"
      using "1.IH" False "1.prems" by simp
    show ?thesis
      using False ih digit_char_cases[OF m]
      by (subst (1 2 3) str_digits.simps) (simp add: digits_to_int_snoc)
  qed
qed

lemma split_pairs_spec:
  "split_pairs rest parts = (r, ps) \<Longrightarrow>
     \<exists>qs. ps = parts @ qs \<and> list_all (\<lambda>q. length q = 2) qs \<and> r @ concat (rev qs) = rest
          \<and> (rest \<noteq> [] \<longrightarrow> r \<noteq> []) \<and> length r \<le> 2"
proof (induction rest parts arbitrary: r ps rule: split_pairs.induct)
  case (1 rest parts)
  show ?case
  proof (cases "2 < length rest")
    case True
    let ?t = "take (length rest - 2) rest" and ?d = "drop (length rest - 2) rest"
    have "split_pairs ?t (parts @ [?d]) = (r, ps)"
      using "1.prems" True by (subst (asm) split_pairs.simps) simp
    from "1.IH"[OF True this] obtain qs where
      qs: "ps = (parts @ [?d]) @ qs" "list_all (\<lambda>q. length q = 2) qs" "r @ concat (rev qs) = ?t"
          "?t \<noteq> [] \<longrightarrow> r \<noteq> []" "length r \<le> 2"
      by blast
    have tne: "?t \<noteq> []" using True by auto
    have "r @ concat (rev (?d # qs)) = rest"
      using qs(3) by (simp flip: append_assoc)
    moreover have "length ?d = 2" using True by simp
    ultimately show ?thesis
      using qs tne by (intro exI[of _ "?d # qs"]) simp
  next
    case False
    then have "r = rest" "ps = parts"
      using "1.prems" by (subst (asm) split_pairs.simps, simp)+
    then show ?thesis using False by (intro exI[of _ "[]"]) simp
  qed
qed

lemma join_snoc: "xs \<noteq> [] \<Longrightarrow> join sep (xs @ [y]) = join sep xs @ sep @ y"
  by (induction sep xs rule: join.induct) auto

lemma filter_join:
  "list_all (\<lambda>g. CHR '','' \<notin> set g) gs \<Longrightarrow>
     filter (\<lambda>c. c \<noteq> CHR '','') (join '','' gs) = concat gs"
  by (induction "'',''" gs rule: join.induct) (auto simp: filter_id_conv)

lemma format_indian_digits_groups:
  assumes "s \<noteq> []"
  shows "\<exists>gs. format_indian_digits s = rupee @ '' '' @ join '','' gs \<and> concat gs = s \<and> indian_pattern gs"
proof (cases "length s \<le> 3")
  case True
  then show ?thesis
    using assms by (intro exI[of _ "[s]"]) (simp add: format_indian_digits_def indian_pattern_def Suc_le_eq)
next
  case False
  let ?t = "take (length s - 3) s" and ?l = "drop (length s - 3) s"
  obtain r ps where sp: "split_pairs ?t [] = (r, ps)" by fastforce
  from split_pairs_spec[OF sp] obtain qs where
    qs: "ps = qs" "list_all (\<lambda>q. length q = 2) qs" "r @ concat (rev qs) = ?t"
        "?t \<noteq> [] \<longrightarrow> r \<noteq> []" "length r \<le> 2"
    by auto
  have rne: "r \<noteq> []" using qs(4) False by auto
  have f: "format_indian_digits s = rupee @ '' '' @ join '','' (r # rev qs) @ '','' @ ?l"
    using False sp rne qs(1) by (simp add: format_indian_digits_def)
  let ?gs = "(r # rev qs) @ [?l]"
  have j: "join '','' ?gs = join '','' (r # rev qs) @ '','' @ ?l"
    by (rule join_snoc) simp
  have c: "concat ?gs = s"
    using qs(3) by (simp flip: append_assoc)
  have lr: "length r = 1 \<or> length r = 2"
    using rne qs(5) by (cases r) (auto simp: le_Suc_eq)
  have l3: "length ?l = 3" using False by simp
  have p: "indian_pattern ?gs"
    using lr l3 qs(2) by (cases "rev qs") (auto simp: indian_pattern_def butlast_append list_all_iff)
  have "format_indian_digits s = rupee @ '' '' @ join '','' ?gs"
    by (simp only: f j)
  then show ?thesis
    using c p by blast
qed

theorem cell_normalisation_witness:
  "list_all (\<lambda>c. is_digit c \<or> c = CHR '','') ''12,345'' \<and> list_ex is_digit ''12,345''
   \<and> py_int (cell_number_str ''12,345'') = Some 12345
   \<and> currency_value ''98,765 (provisional)'' = Some 98765"
proof -
  have h: "list_all (\<lambda>c. is_digit c \<or> c = CHR '','') ''12,345'' \<and> list_ex is_digit ''12,345''"
    by (simp add: is_digit_def)
  have v: "digits_to_int (filter is_digit ''12,345'') = 12345"
    by (simp add: is_digit_def digits_to_int_def digit_val_def)
  have w: "filter is_digit (takeWhile (\<lambda>c. c \<noteq> CHR ''('') ''98,765 (provisional)'') = ''98765''"
    by (simp add: is_digit_def)
  have x: "digits_to_int ''98765'' = 98765"
    by (simp add: digits_to_int_def digit_val_def)
  show ?thesis
    using h v w x cell_normalisation[of "''12,345''" "''98,765 (provisional)''"]
    by (simp add: Let_def)
qed

text \<open>
  Claim C9.  For every non-negative integer \<open>n\<close>, \<open>format_indian_currency\<close> returns the
  rupee sign and a space followed by the decimal digits of \<open>n\<close> cut into comma-separated
  groups in the Indian pattern, and dropping the prefix and the commas gives back the
  decimal numeral of \<open>n\<close>, whose value is \<open>n\<close>.
\<close>

theorem format_indian_currency_groups:
  assumes "0 \<le> n"
  shows "\<exists>out gs. format_indian_currency (PyInt n) = Inr out
           \<and> out = rupee @ '' '' @ join '','' gs
           \<and> concat gs = str_int n \<and> indian_pattern gs
           \<and> filter (\<lambda>c. c \<noteq> CHR '','') (drop (length (rupee @ '' '')) out) = str_int n
           \<and> list_all is_digit (str_int n) \<and> digits_to_int (str_int n) = n"
proof -
  have s: "str_int n = str_digits n" using assms by (simp add: str_int_def)
  have d: "list_all is_digit (str_int n)" "digits_to_int (str_int n) = n" "str_int n \<noteq> []"
    using str_digits_ok[OF assms] s by simp_all
  from format_indian_digits_groups[OF d(3)] obtain gs where
    gs: "format_indian_digits (str_int n) = rupee @ '' '' @ join '','' gs" "concat gs = str_int n"
        "indian_pattern gs"
    by blast
  have nc: "list_all (\<lambda>g. CHR '','' \<notin> set g) gs"
  proof -
    have "\<forall>c \<in> set (concat gs). is_digit c"
      using d(1) gs(2) by (simp add: list_all_iff)
    then show ?thesis
      using digit_not_special by (fastforce simp: list_all_iff)
  qed
  have "filter (\<lambda>c. c \<noteq> CHR '','') (join '','' gs) = str_int n"
    using filter_join[OF nc] gs(2) by simp
  then have "filter (\<lambda>c. c \<noteq> CHR '','')
      (drop (length (rupee @ '' '')) (rupee @ '' '' @ join '','' gs)) = str_int n"
    by simp
  moreover have "format_indian_currency (PyInt n) = Inr (rupee @ '' '' @ join '','' gs)"
    using gs(1) by (simp add: format_indian_currency_def int_of_number_def)
  ultimately show ?thesis
    using gs(2,3) d(1,2) by blast
qed

theorem format_indian_currency_groups_witness:
  "(0::int) \<le> 123456789 \<and> format_indian_currency (PyInt 123456789) = Inr (rupee @ '' 12,34,56,789'')
   \<and> (\<exists>out gs. format_indian_currency (PyInt 123456789) = Inr out
           \<and> out = rupee @ '' '' @ join '','' gs
           \<and> concat gs = str_int 123456789 \<and> indian_pattern gs
           \<and> filter (\<lambda>c. c \<noteq> CHR '','') (drop (length (rupee @ '' '')) out) = str_int 123456789
           \<and> list_all is_digit (str_int 123456789) \<and> digits_to_int (str_int 123456789) = 123456789)"
proof -
  have a: "format_indian_currency (PyInt 123456789) = Inr (rupee @ '' 12,34,56,789'')"
    by code_simp
  show ?thesis
    using a format_indian_currency_groups[of 123456789] by simp
qed


subsection \<open>Student gender ratio\<close>

lemma student_tables_skip:
  "\<not> student_table_matches t \<Longrightarrow>
     student_tables n c f (ts1 @ t # ts2) = student_tables n c f (ts1 @ ts2)"
  by (induction ts1 arbitrary: f)
     (auto simp: student_table_matches_def Let_def split: option.splits sum.splits prod.splits)

lemma student_pages_cong:
  "student_tables n c False (page_extract_tables p) = student_tables n c False (page_extract_tables p') \<Longrightarrow>
     student_pages n c (ps1 @ p # ps2) = student_pages n c (ps1 @ p' # ps2)"
  by (induction ps1) (auto split: sum.splits prod.splits)

lemma female_ratio_45: "female_ratio 450 1000 = Inr (PyFloat (Fin 45 0))"
  by code_simp

lemma page_tables_update [simp]:
  "page_extract_tables (p\<lparr>page_find_tables := ts\<rparr>) = map table_extract ts"
  by (simp add: page_extract_tables_def)

lemma student_run_cong:
  assumes "pdf \<noteq> []" "pdf' \<noteq> []"
    and "page_extract_text (hd pdf) = page_extract_text (hd pdf')"
    and "\<And>n c. student_pages n c pdf = student_pages n c pdf'"
  shows "extract_student_ratio_run pdf = extract_student_ratio_run pdf'"
proof -
  obtain p ps where 1: "pdf = p # ps" using assms(1) by (cases pdf) auto
  obtain p' ps' where 2: "pdf' = p' # ps'" using assms(2) by (cases pdf') auto
  have "page_extract_text p = page_extract_text p'" using assms(3) 1 2 by simp
  moreover have "student_pages n c (p # ps) = student_pages n c (p' # ps')" for n c
    using assms(4) 1 2 by simp
  ultimately show ?thesis
    unfolding extract_student_ratio_run_def 1 2
    by (simp del: student_pages.simps split: option.splits)
qed

text \<open>
  Claim C5.  A table whose header does not match the signature of the student-strength
  table (or which is empty), placed anywhere among the tables of any page of any
  document, changes neither the outcome of the extraction (records or exception) nor
  the frame returned; a document whose only table is such a table, and whose first page
  has text, gives no exception and no record.
\<close>

theorem unmatched_table_ignored:
  assumes "\<not> student_table_matches (table_extract t)"
  shows "extract_student_ratio_run (ps1 @ p\<lparr>page_find_tables := ts1 @ t # ts2\<rparr> # ps2)
           = extract_student_ratio_run (ps1 @ p\<lparr>page_find_tables := ts1 @ ts2\<rparr> # ps2)
         \<and> extract_student_ratio_data (ps1 @ p\<lparr>page_find_tables := ts1 @ t # ts2\<rparr> # ps2)
           = extract_student_ratio_data (ps1 @ p\<lparr>page_find_tables := ts1 @ ts2\<rparr> # ps2)
         \<and> extract_student_ratio_run [\<lparr>page_extract_text = Some text, page_text_above = crop,
               page_find_tables = [t]\<rparr>] = Inr []"
proof -
  let ?p1 = "p\<lparr>page_find_tables := ts1 @ t # ts2\<rparr>" and ?p2 = "p\<lparr>page_find_tables := ts1 @ ts2\<rparr>"
  have tabs: "student_tables n c False (page_extract_tables ?p1)
                = student_tables n c False (page_extract_tables ?p2)" for n c
    using student_tables_skip[OF assms, of n c False "map table_extract ts1" "map table_extract ts2"]
    by simp
  have pages: "student_pages n c (ps1 @ ?p1 # ps2) = student_pages n c (ps1 @ ?p2 # ps2)" for n c
    by (rule student_pages_cong) (rule tabs)
  have hd_text: "page_extract_text (hd (ps1 @ ?p1 # ps2)) = page_extract_text (hd (ps1 @ ?p2 # ps2))"
    by (cases ps1) simp_all
  have run: "extract_student_ratio_run (ps1 @ ?p1 # ps2) = extract_student_ratio_run (ps1 @ ?p2 # ps2)"
    by (rule student_run_cong) (use hd_text pages in simp_all)
  have single: "student_tables n c False [table_extract t] = Inr (False, [])" for n c
    using student_tables_skip[OF assms, of n c False "[]" "[]"] by simp
  have one: "extract_student_ratio_run [\<lparr>page_extract_text = Some text, page_text_above = crop,
               page_find_tables = [t]\<rparr>] = Inr []"
    by (simp add: extract_student_ratio_run_def page_extract_tables_def single
          del: student_tables.simps)
  show ?thesis
    using run one by (simp add: extract_student_ratio_data_def)
qed


theorem unmatched_table_ignored_witness:
  "\<not> student_table_matches claimed_table
   \<and> extract_student_ratio_data
        [example_page [claimed_table,
           strength_table [[Some ''UG [4 Years]'', Some ''550'', Some ''450'', Some ''1000'']]]]
      = extract_student_ratio_data
        [example_page [strength_table [[Some ''UG [4 Years]'', Some ''550'', Some ''450'', Some ''1000'']]]]
   \<and> map rr_female_ratio (extract_student_ratio_data
        [example_page [claimed_table,
           strength_table [[Some ''UG [4 Years]'', Some ''550'', Some ''450'', Some ''1000'']]]])
      = [PyFloat (Fin 45 0)]"
proof -
  let ?st = "strength_table [[Some ''UG [4 Years]'', Some ''550'', Some ''450'', Some ''1000'']]"
  let ?t = "\<lparr>table_bbox_top = 200, table_extract = claimed_table\<rparr>"
  let ?u = "\<lparr>table_bbox_top = 200, table_extract = ?st\<rparr>"
  have h: "\<not> student_table_matches (table_extract ?t)"
    by (simp add: student_table_matches_def claimed_table_def student_signature_def
          clean_header_cell_def truthy_def py_str_def startswith_def newline_def)
  have e1: "example_page [claimed_table, ?st] = (example_page [])\<lparr>page_find_tables := [] @ ?t # [?u]\<rparr>"
    by (simp add: example_page_def)
  have e2: "example_page [?st] = (example_page [])\<lparr>page_find_tables := [] @ [?u]\<rparr>"
    by (simp add: example_page_def)
  have v: "map rr_female_ratio (extract_student_ratio_data [example_page [?st]]) = [PyFloat (Fin 45 0)]"
    by code_simp
  have "extract_student_ratio_data [example_page [claimed_table, ?st]]
          = extract_student_ratio_data [example_page [?st]]"
    using unmatched_table_ignored[OF h, where ?ps1.0 = "[]" and p = "example_page []"
        and ?ts1.0 = "[]" and ?ts2.0 = "[?u]" and ?ps2.0 = "[]"]
    unfolding e1 e2 by simp
  then show ?thesis using h v by simp
qed

lemma py_int_Nil: "py_int [] = None"
  by (simp add: py_int_def py_strip_def)



lemma int_cell_cases:
  "int_cell row c = Inl AttributeError \<and> nth_opt row c = Some None
   \<or> int_cell row c = Inr None \<and> nth_opt row c = None
   \<or> (\<exists>s. nth_opt row c = Some (Some s) \<and> int_cell row c = Inr (py_int (py_replace '','' [] s)))"
  by (auto simp: int_cell_def split: option.splits)






text \<open>
  Claim C2 as stated fails: the header of the scenario has no
  \<open>"No. of Male Students"\<close> cell, which line 52 requires, so the table is passed over.
\<close>

theorem scenario_one_counterexample:
  "extract_student_ratio_run [example_page [claimed_table]] = Inr []
   \<and> extract_student_ratio_data [example_page [claimed_table]] = []"
  by code_simp

lemma ug4_cell:
  "truthy (Some ''UG [4 Years]'')"
  "py_strip (py_str (Some ''UG [4 Years]'')) \<noteq> []"
  "py_strip (py_replace [newline] '' '' (py_str (Some ''UG [4 Years]''))) = ''UG [4 Years]''"
  "startswith ''UG [4 Years]'' ''UG [''"
  by code_simp+

lemma count_cells:
  "cell_number_str ''1000'' = ''1000''" "cell_number_str ''450'' = ''450''"
  "py_int ''1000'' = Some 1000" "py_int ''450'' = Some 450"
  by code_simp+

text \<open>
  Claim C2, as the code has it.  When the header row also holds
  \<open>"No. of Male Students"\<close>, so that it matches the signature, and the single data row
  holds \<open>"UG [4 Years]"\<close> in the first column, \<open>"1000"\<close> in the column of
  \<open>"Total Students"\<close> and \<open>"450"\<close> in the column of \<open>"No. of Female Students"\<close>, a
  document with this one table, whose first page has text, yields exactly one record,
  and its female ratio is the float \<open>45.0\<close>.
\<close>

theorem scenario_one_with_male_column:
  assumes "student_signature (map clean_header_cell hs)"
    and "py_index (map clean_header_cell hs) ''No. of Female Students'' 0 = Some fi"
    and "py_index (map clean_header_cell hs) ''Total Students'' 0 = Some ti"
    and "nth_opt row 0 = Some (Some ''UG [4 Years]'')"
    and "nth_opt row ti = Some (Some ''1000'')"
    and "nth_opt row fi = Some (Some ''450'')"
    and "page_extract_text p = Some text"
    and "page_extract_tables p = [[hs, row]]"
  shows "extract_student_ratio_data [p] =
           [\<lparr>rr_s_no = 1, rr_college_name = student_college_name text,
             rr_college_id = student_college_id text, rr_program = ''UG [4 Years]'',
             rr_total_students = 1000, rr_female_students = 450,
             rr_female_ratio = PyFloat (Fin 45 0)\<rparr>]"
proof -
  let ?n = "student_college_name text" and ?c = "student_college_id text"
  let ?r = "\<lparr>rr_s_no = 1, rr_college_name = ?n, rr_college_id = ?c, rr_program = ''UG [4 Years]'',
             rr_total_students = 1000, rr_female_students = 450,
             rr_female_ratio = PyFloat (Fin 45 0)\<rparr>"
  have row: "student_row ?n ?c fi ti 1 row = Inr (Some ?r)"
    by (simp add: student_row_def assms(4,5,6) ug4_cell count_cells female_ratio_45 Let_def)
  have rows: "student_rows ?n ?c fi ti 1 [row] = Inr [?r]"
    by (simp add: row)
  have tabs: "student_tables ?n ?c False [[hs, row]] = Inr (True, [?r])"
    by (simp add: assms(1,2,3) rows Let_def del: student_rows.simps)
  show ?thesis
    by (simp add: extract_student_ratio_data_def extract_student_ratio_run_def assms(7,8) tabs
          del: student_tables.simps)
qed

theorem scenario_one_with_male_column_witness:
  "extract_student_ratio_data
     [example_page [strength_table [[Some ''UG [4 Years]'', Some ''550'', Some ''450'', Some ''1000'']]]]
   = [\<lparr>rr_s_no = 1, rr_college_name = ''Example College'', rr_college_id = ''IR-E-C-1234'',
       rr_program = ''UG [4 Years]'', rr_total_students = 1000, rr_female_students = 450,
       rr_female_ratio = PyFloat (Fin 45 0)\<rparr>]"
proof -
  let ?hs = "[Some ''Program'', Some ''No. of Male Students'', Some ''No. of Female Students'',
      Some ''Total Students'']"
  let ?row = "[Some ''UG [4 Years]'', Some ''550'', Some ''450'', Some ''1000'']"
  let ?p = "example_page [strength_table [?row]]"
  have 1: "student_signature (map clean_header_cell ?hs)" by code_simp
  have 2: "py_index (map clean_header_cell ?hs) ''No. of Female Students'' 0 = Some 2" by code_simp
  have 3: "py_index (map clean_header_cell ?hs) ''Total Students'' 0 = Some 3" by code_simp
  have 4: "nth_opt ?row 0 = Some (Some ''UG [4 Years]'')" "nth_opt ?row 3 = Some (Some ''1000'')"
    "nth_opt ?row 2 = Some (Some ''450'')"
    by (simp_all add: nth_opt_def)
  have 5: "page_extract_text ?p = Some ''Institute Name: Example College [IR-E-C-1234]''"
    by (simp add: example_page_def)
  have 6: "page_extract_tables ?p = [[?hs, ?row]]"
    by (simp add: example_page_def page_extract_tables_def strength_table_def)
  have 7: "student_college_name ''Institute Name: Example College [IR-E-C-1234]'' = ''Example College''"
    by code_simp
  have 8: "student_college_id ''Institute Name: Example College [IR-E-C-1234]'' = ''IR-E-C-1234''"
    by code_simp
  show ?thesis
    using scenario_one_with_male_column[OF 1 2 3 4 5 6] by (simp add: 7 8)
qed

text \<open>
  Claim C1 at a row whose total is zero: the student-ratio extractor stores the integer
  \<open>0\<close> in the ratio field, which is not the float \<open>0.0\<close> that the placement extractor
  stores for a zero denominator.
\<close>

theorem zero_total_ratio_is_int:
  "map rr_female_ratio (extract_student_ratio_data
      [example_page [strength_table [[Some ''UG [4 Years]'', Some ''0'', Some ''0'', Some ''0'']]]])
   = [PyInt 0]
   \<and> PyInt 0 \<noteq> PyFloat (Fin 0 0)
   \<and> percentage 0 0 = Inr (PyFloat (Fin 0 0))"
proof -
  have "map rr_female_ratio (extract_student_ratio_data
      [example_page [strength_table [[Some ''UG [4 Years]'', Some ''0'', Some ''0'', Some ''0'']]]])
   = [PyInt 0]"
    by code_simp
  then show ?thesis by (simp add: percentage_def)
qed

subsection \<open>Context label of a table\<close>










subsection \<open>Ph.D. graduates\<close>

lemma map_of_dict_set: "map_of (dict_set k v d) = (map_of d)(k \<mapsto> v)"
  by (induction d) (auto simp: fun_eq_iff)

lemma map_of_phd_fold:
  "map_of (foldl (\<lambda>d y. dict_set y (f y) d) d0 ys) y
     = (if y \<in> set ys then Some (f y) else map_of d0 y)"
  by (induction ys arbitrary: d0) (auto simp: map_of_dict_set)

lemma dict_get_year_dict:
  "y \<in> set ys \<Longrightarrow> dict_get (phd_year_dict f ys) y 0 = f y"
  by (simp add: dict_get_def phd_year_dict_def map_of_phd_fold)

lemma dict_set_fresh: "k \<notin> fst ` set d \<Longrightarrow> dict_set k v d = d @ [(k, v)]"
  by (induction d) auto

lemma phd_fold_distinct:
  "distinct ys \<Longrightarrow> set ys \<inter> fst ` set d0 = {} \<Longrightarrow>
     foldl (\<lambda>d y. dict_set y (f y) d) d0 ys = d0 @ map (\<lambda>y. (y, f y)) ys"
proof (induction ys arbitrary: d0)
  case Nil
  then show ?case by simp
next
  case (Cons y ys)
  have fresh: "y \<notin> fst ` set d0" using Cons.prems(2) by auto
  have "set ys \<inter> fst ` set (d0 @ [(y, f y)]) = {}"
    using Cons.prems by auto
  then show ?case
    using Cons.IH[of "d0 @ [(y, f y)]"] Cons.prems(1) by (simp add: dict_set_fresh[OF fresh])
qed

lemma phd_make_row_total:
  "phd_total (phd_make_row name f ys) = sum_list (map f ys)"
proof -
  have "sum_list (map (\<lambda>y. dict_get (phd_year_dict f ys) y 0) ys) = sum_list (map f ys)"
    by (rule arg_cong[where f = sum_list], rule map_cong) (simp_all add: dict_get_year_dict)
  then show ?thesis by (simp add: phd_make_row_def Let_def)
qed

lemma phd_make_row_distinct:
  assumes "distinct ys"
  shows "phd_total (phd_make_row name f ys) = sum_list (dict_values (phd_year_values (phd_make_row name f ys)))"
proof -
  have "phd_year_dict f ys = map (\<lambda>y. (y, f y)) ys"
    using phd_fold_distinct[OF assms, of "[]" f] by (simp add: phd_year_dict_def)
  then have "dict_values (phd_year_values (phd_make_row name f ys)) = map f ys"
    by (simp add: phd_make_row_def Let_def dict_values_def comp_def)
  then show ?thesis by (simp add: phd_make_row_total)
qed

lemma phd_frame_rows:
  assumes "years \<noteq> []"
  shows "\<exists>ft_row pt_row total_row.
           phd_frame cn cc (ft, pt, years) = [ft_row, pt_row, total_row]
           \<and> phd_program_name ft_row = ''Ph.D. Graduated - Full Time''
           \<and> phd_program_name pt_row = ''Ph.D. Graduated - Part Time''
           \<and> phd_program_name total_row = ''Ph.D. Graduated - Total''
           \<and> dict_keys (phd_year_values total_row) = dict_keys (phd_year_values ft_row)
           \<and> list_all (\<lambda>year. dict_get (phd_year_values total_row) year 0
                  = dict_get (phd_year_values ft_row) year 0 + dict_get (phd_year_values pt_row) year 0)
               (dict_keys (phd_year_values total_row))
           \<and> (distinct years \<longrightarrow>
                list_all (\<lambda>r. phd_total r = sum_list (dict_values (phd_year_values r)))
                  [ft_row, pt_row, total_row])"
proof -
  let ?ys = "sorted_reverse years"
  let ?f = "\<lambda>year. dict_get ft year 0" and ?p = "\<lambda>year. dict_get pt year 0"
  let ?fr = "phd_make_row ''Ph.D. Graduated - Full Time'' ?f ?ys"
  let ?pr = "phd_make_row ''Ph.D. Graduated - Part Time'' ?p ?ys"
  let ?t = "\<lambda>year. dict_get (phd_year_values ?fr) year 0 + dict_get (phd_year_values ?pr) year 0"
  let ?tr = "phd_make_row ''Ph.D. Graduated - Total'' ?t ?ys"
  let ?upd = "\<lambda>i r. r\<lparr>phd_sno := i, phd_college_name := cn, phd_college_code := cc\<rparr>"
  have fr: "phd_frame cn cc (ft, pt, years) = [?upd 1 ?fr, ?upd 2 ?pr, ?upd 3 ?tr]"
    using assms by (simp add: phd_frame_def Let_def)
  have keys: "dict_keys (phd_year_dict g ?ys) = dict_keys (phd_year_dict h ?ys)" for g h :: "string \<Rightarrow> int"
  proof -
    have "map fst (foldl (\<lambda>d y. dict_set y (g y) d) d0 zs) = map fst (foldl (\<lambda>d y. dict_set y (h y) d) d1 zs)"
      if "map fst d0 = map fst d1" for d0 d1 zs
      using that
    proof (induction zs arbitrary: d0 d1)
      case Nil
      then show ?case by simp
    next
      case (Cons z zs)
      have "map fst (dict_set z (g z) d0) = map fst (dict_set z (h z) d1)"
        using Cons.prems by (induction d0 arbitrary: d1) (auto simp: map_eq_Cons_conv)
      then show ?case using Cons.IH by simp
    qed
    then show ?thesis by (simp add: dict_keys_def phd_year_dict_def)
  qed
  have kset: "set (dict_keys (phd_year_dict g ?ys)) = set ?ys" for g :: "string \<Rightarrow> int"
  proof -
    have "set (map fst (phd_year_dict g ?ys)) = dom (map_of (phd_year_dict g ?ys))"
      by (simp add: dom_map_of_conv_image_fst)
    also have "\<dots> = set ?ys"
      by (auto simp: phd_year_dict_def map_of_phd_fold dom_def split: if_splits)
    finally show ?thesis by (simp add: dict_keys_def)
  qed
  have vals: "phd_year_values (phd_make_row nm g ?ys) = phd_year_dict g ?ys" for nm g
    by (simp add: phd_make_row_def Let_def)
  have sums: "list_all (\<lambda>year. dict_get (phd_year_values (?upd 3 ?tr)) year 0
                  = dict_get (phd_year_values (?upd 1 ?fr)) year 0 + dict_get (phd_year_values (?upd 2 ?pr)) year 0)
               (dict_keys (phd_year_values (?upd 3 ?tr)))"
    using kset[of ?t] by (auto simp: list_all_iff vals dict_get_year_dict)
  have d: "distinct years \<Longrightarrow> distinct ?ys"
    by (simp add: sorted_reverse_def)
  have tot: "distinct years \<longrightarrow>
                list_all (\<lambda>r. phd_total r = sum_list (dict_values (phd_year_values r)))
                  [?upd 1 ?fr, ?upd 2 ?pr, ?upd 3 ?tr]"
    using d phd_make_row_distinct[of ?ys] by simp
  have k2: "dict_keys (phd_year_values (?upd 3 ?tr)) = dict_keys (phd_year_values (?upd 1 ?fr))"
    using keys[of ?t ?f] by (simp add: vals)
  have names: "phd_program_name (?upd 1 ?fr) = ''Ph.D. Graduated - Full Time''"
    "phd_program_name (?upd 2 ?pr) = ''Ph.D. Graduated - Part Time''"
    "phd_program_name (?upd 3 ?tr) = ''Ph.D. Graduated - Total''"
    by (simp_all add: phd_make_row_def Let_def)
  show ?thesis
    using fr names k2 sums tot by blast
qed

text \<open>
  Claim C10 at a table whose header row repeats a year label: the frame has the three
  rows, and the Total row is the sum of the other two in its year column, but every
  row's \<open>Total\<close> counts the repeated year twice, so it is not the sum of the row's
  per-year values (\<open>14\<close> against \<open>7\<close>).  The lemmas above show that the frame always
  has no row or these three rows, that the Total row always adds up the other two, and
  that the \<open>Total\<close> column is the row sum whenever the year labels are distinct.
\<close>

theorem repeated_year_total:
  "map (\<lambda>r. (phd_program_name r, phd_year_values r, phd_total r))
     (extract_phd_graduated_data [example_page [phd_repeated_year_table]])
   = [(''Ph.D. Graduated - Full Time'', [(''2021-22'', 7)], 14),
      (''Ph.D. Graduated - Part Time'', [(''2021-22'', 2)], 4),
      (''Ph.D. Graduated - Total'', [(''2021-22'', 9)], 18)]"
  by code_simp


lemma phd_output_shape:
  "extract_phd_graduated_data pdf = []
   \<or> (\<exists>cn cc ft pt years. years \<noteq> [] \<and> extract_phd_graduated_data pdf = phd_frame cn cc (ft, pt, years))"
proof (cases "extract_phd_graduated_run pdf")
  case (Inl e)
  then show ?thesis by (simp add: extract_phd_graduated_data_def)
next
  case (Inr rows)
  then obtain cn cc st where "rows = phd_frame cn cc st"
    by (auto simp: extract_phd_graduated_run_def split: list.splits prod.splits sum.splits)
  moreover obtain ft pt years where "st = (ft, pt, years)" by (cases st) auto
  ultimately have r: "extract_phd_graduated_data pdf = phd_frame cn cc (ft, pt, years)"
    using Inr by (simp add: extract_phd_graduated_data_def)
  show ?thesis
  proof (cases "years = []")
    case True
    then show ?thesis using r by (simp add: phd_frame_def)
  next
    case False
    then show ?thesis using r by blast
  qed
qed

end
